theory Spec2Isabelle
  imports Main
begin

section \<open>Scalars, small vectors and matrices\<close>

text \<open>
  The layer of \<^verbatim>\<open>manotorch/manolayer.py\<close> computes on tensors of floating-point
  numbers. The embedding keeps the tensor operations of the source and takes the scalars
  from an arbitrary commutative ring \<open>'a\<close> (the reals, the rationals, the integers):
  arithmetic is exact, rounding is not modelled. A tensor axis whose length the source
  fixes (3 and 4 for rotations and homogeneous transforms) is a datatype with that many
  components; an axis whose length comes from the asset file or from the caller (batch,
  vertices, shape and pose coefficients) is a list.
\<close>

datatype 'a vec3 = Vec3 (vx: 'a) (vy: 'a) (vz: 'a)

datatype 'a vec4 = Vec4 (v1: 'a) (v2: 'a) (v3: 'a) (v4: 'a)

datatype 'a mat3 = Mat3 (r1: "'a vec3") (r2: "'a vec3") (r3: "'a vec3")

datatype 'a mat34 = Mat34 (p1: "'a vec4") (p2: "'a vec4") (p3: "'a vec4")

datatype 'a mat4 = Mat4 (m1: "'a vec4") (m2: "'a vec4") (m3: "'a vec4") (m4: "'a vec4")

definition zero3 :: "'a::comm_ring_1 vec3" where
  "zero3 = Vec3 0 0 0"

definition vec3_add :: "'a::comm_ring_1 vec3 \<Rightarrow> 'a vec3 \<Rightarrow> 'a vec3" where
  "vec3_add a b = Vec3 (vx a + vx b) (vy a + vy b) (vz a + vz b)"

definition vec3_sub :: "'a::comm_ring_1 vec3 \<Rightarrow> 'a vec3 \<Rightarrow> 'a vec3" where
  "vec3_sub a b = Vec3 (vx a - vx b) (vy a - vy b) (vz a - vz b)"

text \<open>\<^verbatim>\<open>torch.eye(3)\<close>.\<close>

definition eye3 :: "'a::comm_ring_1 mat3" where
  "eye3 = Mat3 (Vec3 1 0 0) (Vec3 0 1 0) (Vec3 0 0 1)"

definition mat3_sub :: "'a::comm_ring_1 mat3 \<Rightarrow> 'a mat3 \<Rightarrow> 'a mat3" where
  "mat3_sub A B = Mat3 (vec3_sub (r1 A) (r1 B)) (vec3_sub (r2 A) (r2 B)) (vec3_sub (r3 A) (r3 B))"

text \<open>A 3x3 block read row by row, as \<^verbatim>\<open>reshape\<close> does.\<close>

definition flat9 :: "'a mat3 \<Rightarrow> 'a list" where
  "flat9 A = [vx (r1 A), vy (r1 A), vz (r1 A),
              vx (r2 A), vy (r2 A), vz (r2 A),
              vx (r3 A), vy (r3 A), vz (r3 A)]"

text \<open>
  The contraction of \<^verbatim>\<open>torch.matmul\<close> along one axis. The callers check that the two
  lengths agree where the source would raise.
\<close>

definition dot :: "'a::comm_ring_1 list \<Rightarrow> 'a list \<Rightarrow> 'a" where
  "dot xs ys = sum_list (map2 (*) xs ys)"

definition snoc3 :: "'a vec3 \<Rightarrow> 'a \<Rightarrow> 'a vec4" where
  "snoc3 v x = Vec4 (vx v) (vy v) (vz v) x"

definition xyz :: "'a vec4 \<Rightarrow> 'a vec3" where
  "xyz v = Vec3 (v1 v) (v2 v) (v3 v)"

text \<open>\<^verbatim>\<open>torch.cat([rot, j], -1)\<close> of a 3x3 block and a 3x1 column.\<close>

definition cat34 :: "'a mat3 \<Rightarrow> 'a vec3 \<Rightarrow> 'a mat34" where
  "cat34 R t = Mat34 (snoc3 (r1 R) (vx t)) (snoc3 (r2 R) (vy t)) (snoc3 (r3 R) (vz t))"

text \<open>
  \<^verbatim>\<open>th_with_zeros\<close> (lines 28-34), on one item of its batch: the row
  \<^verbatim>\<open>[0.0, 0.0, 0.0, 1.0]\<close> is appended below the 3x4 block.
\<close>

definition th_with_zeros :: "'a::comm_ring_1 mat34 \<Rightarrow> 'a mat4" where
  "th_with_zeros M = Mat4 (p1 M) (p2 M) (p3 M) (Vec4 0 0 0 1)"

definition dot4 :: "'a::comm_ring_1 vec4 \<Rightarrow> 'a vec4 \<Rightarrow> 'a" where
  "dot4 u w = v1 u * v1 w + v2 u * v2 w + v3 u * v3 w + v4 u * v4 w"

definition mat4_vec :: "'a::comm_ring_1 mat4 \<Rightarrow> 'a vec4 \<Rightarrow> 'a vec4" where
  "mat4_vec A w = Vec4 (dot4 (m1 A) w) (dot4 (m2 A) w) (dot4 (m3 A) w) (dot4 (m4 A) w)"

definition col4 :: "('a vec4 \<Rightarrow> 'a) \<Rightarrow> 'a mat4 \<Rightarrow> 'a vec4" where
  "col4 sel B = Vec4 (sel (m1 B)) (sel (m2 B)) (sel (m3 B)) (sel (m4 B))"

definition row_mat4 :: "'a::comm_ring_1 vec4 \<Rightarrow> 'a mat4 \<Rightarrow> 'a vec4" where
  "row_mat4 r B = Vec4 (dot4 r (col4 v1 B)) (dot4 r (col4 v2 B)) (dot4 r (col4 v3 B)) (dot4 r (col4 v4 B))"

text \<open>\<^verbatim>\<open>torch.matmul\<close> of two 4x4 matrices.\<close>

definition mat4_mul :: "'a::comm_ring_1 mat4 \<Rightarrow> 'a mat4 \<Rightarrow> 'a mat4" where
  "mat4_mul A B = Mat4 (row_mat4 (m1 A) B) (row_mat4 (m2 A) B) (row_mat4 (m3 A) B) (row_mat4 (m4 A) B)"

definition vec4_sub :: "'a::comm_ring_1 vec4 \<Rightarrow> 'a vec4 \<Rightarrow> 'a vec4" where
  "vec4_sub a b = Vec4 (v1 a - v1 b) (v2 a - v2 b) (v3 a - v3 b) (v4 a - v4 b)"

definition mat4_sub :: "'a::comm_ring_1 mat4 \<Rightarrow> 'a mat4 \<Rightarrow> 'a mat4" where
  "mat4_sub A B = Mat4 (vec4_sub (m1 A) (m1 B)) (vec4_sub (m2 A) (m2 B))
                       (vec4_sub (m3 A) (m3 B)) (vec4_sub (m4 A) (m4 B))"

text \<open>The slices \<^verbatim>\<open>[:3, :3]\<close> and \<^verbatim>\<open>[:3, 3]\<close> of a 4x4 transform.\<close>

definition rot3 :: "'a mat4 \<Rightarrow> 'a mat3" where
  "rot3 G = Mat3 (xyz (m1 G)) (xyz (m2 G)) (xyz (m3 G))"

definition tsl3 :: "'a mat4 \<Rightarrow> 'a vec3" where
  "tsl3 G = Vec3 (v4 (m1 G)) (v4 (m2 G)) (v4 (m3 G))"

text \<open>Python indexing of a list by an integer: a negative index counts from the end.\<close>

definition py_index_ok :: "nat \<Rightarrow> int \<Rightarrow> bool" where
  "py_index_ok n i \<longleftrightarrow> - int n \<le> i \<and> i < int n"

definition py_nth :: "'a list \<Rightarrow> int \<Rightarrow> 'a" where
  "py_nth xs i = xs ! nat (if i < 0 then int (length xs) + i else i)"

text \<open>The slice \<^verbatim>\<open>xs[:n]\<close>.\<close>

definition py_take :: "int \<Rightarrow> 'a list \<Rightarrow> 'a list" where
  "py_take n xs = (if 0 \<le> n then take (nat n) xs else take (length xs - nat (- n)) xs)"

section \<open>Errors\<close>

text \<open>
  The exceptions the layer can raise. \<open>NotImplementedError\<close> is raised by the constructor
  (the specification's ConfigError); \<open>RuntimeError\<close> is what torch raises when the shapes
  of the operands of \<^verbatim>\<open>matmul\<close>, \<^verbatim>\<open>mm\<close>, a broadcast or \<^verbatim>\<open>view\<close> do not fit (the
  specification's ShapeMismatchError); \<open>IndexError\<close> is raised by indexing out of range;
  \<open>AttributeError\<close> by reading a buffer that the constructor has not registered.
\<close>

datatype error = NotImplementedError | RuntimeError | IndexError | AttributeError

section \<open>The model data and the constructor\<close>

text \<open>
  What \<^verbatim>\<open>ready_arguments\<close> returns from the asset file, as far as the constructor reads
  it. Shapes in the MANO asset: \<open>shapedirs\<close> (V, 3, S), \<open>posedirs\<close> (V, 3, P),
  \<open>v_template\<close> (V, 3), \<open>J_regressor\<close> (16, V), \<open>weights\<close> (V, 16),
  \<open>hands_components\<close> (45, 45), \<open>hands_mean\<close> (45). The two-dimensional array
  \<open>hands_components\<close> is held by columns (entry \<open>j\<close> is column \<open>j\<close>, a list over the
  components), so that a slice with no rows still has its columns.
\<close>

record 'a smpl_data =
  betas :: "'a list"
  shapedirs :: "'a list vec3 list"
  posedirs :: "'a list vec3 list"
  v_template :: "'a vec3 list"
  J_regressor :: "'a list list"
  weights :: "'a list list"
  f :: "nat vec3 list"
  kintree_table :: "int list list"
  hands_components :: "'a list list"
  hands_mean :: "'a list"

datatype rot_layer = Rotation_by_axisang | Rotation_by_quaternion

text \<open>
  The attributes and buffers of a \<^verbatim>\<open>ManoLayer\<close>. A buffer that the constructor registers
  only in some modes is an option.
\<close>

record 'a mano_layer =
  center_idx :: "int option"
  rot_mode :: string
  side :: string
  use_pca :: bool
  rotation_layer :: rot_layer
  rot_dim :: nat
  th_betas :: "'a list"
  th_shapedirs :: "'a list vec3 list"
  th_posedirs :: "'a list vec3 list"
  th_v_template :: "'a vec3 list"
  th_J_regressor :: "'a list list"
  th_weights :: "'a list list"
  th_faces :: "nat vec3 list"
  kintree_parents :: "int list"
  th_hands_mean :: "'a list option"
  th_selected_comps :: "'a list list option"

definition quat_warning :: string where
  "quat_warning = ''Quat mode doesn't support PCA pose or flat_hand_mean !''"

text \<open>
  The warnings of lines 61-62. They are emitted before line 80 can raise, so they are
  emitted also by a construction that fails there.
\<close>

definition init_warnings :: "string \<Rightarrow> bool \<Rightarrow> bool \<Rightarrow> string list" where
  "init_warnings rot_mode' use_pca' flat_hand_mean =
    (if rot_mode' = ''quat'' \<and> (use_pca' \<or> \<not> flat_hand_mean) then [quat_warning] else [])"

text \<open>
  \<^verbatim>\<open>ManoLayer.__init__\<close> (lines 38-94). The asset file, which \<^verbatim>\<open>mano_assets_root\<close> and
  the side name, is read by \<^verbatim>\<open>ready_arguments\<close> of the package \<^verbatim>\<open>mano\<close>; its result is
  the argument \<open>smpl\<close>. The result is the error raised, or the warnings emitted together
  with the constructed layer. The constructor raises in two places: line 64, on a
  rotation mode that is neither \<^verbatim>\<open>axisang\<close> nor \<^verbatim>\<open>quat\<close>, and line 80, where
  \<^verbatim>\<open>kintree_table[0]\<close> is an IndexError on a table without rows, in either mode. A layer
  that the constructor returns has the buffers that its rotation layer reads.
\<close>

definition ManoLayer_init ::
  "string \<Rightarrow> string \<Rightarrow> int option \<Rightarrow> bool \<Rightarrow> bool \<Rightarrow> int \<Rightarrow> 'a::comm_ring_1 smpl_data
     \<Rightarrow> error + (string list \<times> 'a mano_layer)" where
  "ManoLayer_init rot_mode' side' center_idx' use_pca' flat_hand_mean ncomps smpl =
    (if rot_mode' \<noteq> ''axisang'' \<and> rot_mode' \<noteq> ''quat'' then Inl NotImplementedError
     else case kintree_table smpl of
       [] \<Rightarrow> Inl IndexError
     | row # _ \<Rightarrow> Inr
      (init_warnings rot_mode' use_pca' flat_hand_mean,
       \<lparr> center_idx = center_idx',
         rot_mode = rot_mode',
         side = side',
         use_pca = use_pca',
         rotation_layer = (if rot_mode' = ''axisang'' then Rotation_by_axisang else Rotation_by_quaternion),
         rot_dim = (if rot_mode' = ''axisang'' then 3 else 4),
         th_betas = betas smpl,
         th_shapedirs = shapedirs smpl,
         th_posedirs = posedirs smpl,
         th_v_template = v_template smpl,
         th_J_regressor = J_regressor smpl,
         th_weights = weights smpl,
         th_faces = f smpl,
         kintree_parents = row,
         th_hands_mean =
           (if rot_mode' = ''axisang''
            then Some (if flat_hand_mean then replicate (length (hands_components smpl)) 0
                       else hands_mean smpl)
            else None),
         th_selected_comps =
           (if rot_mode' = ''axisang'' \<and> use_pca'
            then Some (map (py_take ncomps) (hands_components smpl))
            else None) \<rparr>))"

section \<open>The rotation layers\<close>

text \<open>
  The conversions that the layer calls and that are defined elsewhere (in lietorch and
  in the module \<^verbatim>\<open>utils.quatutils\<close>): \<^verbatim>\<open>lietorch.SO3.exp(...).matrix()[..., :3, :3]\<close> on
  one axis-angle vector, \<^verbatim>\<open>quaternion_to_rotation_matrix\<close> and \<^verbatim>\<open>quaternion_to_angle_axis\<close>
  on one quaternion. They are parameters of the embedding; each acts on the rows of its
  argument one by one.
\<close>

record 'a conversions =
  so3_exp :: "'a vec3 \<Rightarrow> 'a mat3"
  quaternion_to_rotation_matrix :: "'a vec4 \<Rightarrow> 'a mat3"
  quaternion_to_angle_axis :: "'a vec4 \<Rightarrow> 'a vec3"

text \<open>
  Broadcast addition of a row of shape (1, M) and a row of shape (B, K) along the last
  axis: the lengths agree, or one of them is 1.
\<close>

definition bc_add :: "'a::comm_ring_1 list \<Rightarrow> 'a list \<Rightarrow> error + 'a list" where
  "bc_add xs ys =
    (if length xs = length ys then Inr (map2 (+) xs ys)
     else if length ys = 1 then Inr (map (\<lambda>x. x + hd ys) xs)
     else if length xs = 1 then Inr (map (\<lambda>y. hd xs + y) ys)
     else Inl RuntimeError)"

text \<open>\<^verbatim>\<open>view(..., 3)\<close> and \<^verbatim>\<open>view(..., 4)\<close> of one row whose length is a multiple of 3, of 4.\<close>

fun chunks3 :: "'a list \<Rightarrow> 'a vec3 list" where
  "chunks3 (a # b # c # xs) = Vec3 a b c # chunks3 xs"
| "chunks3 _ = []"

fun chunks4 :: "'a list \<Rightarrow> 'a vec4 list" where
  "chunks4 (a # b # c # d # xs) = Vec4 a b c d # chunks4 xs"
| "chunks4 _ = []"

definition flat3 :: "'a vec3 list \<Rightarrow> 'a list" where
  "flat3 vs = concat (map (\<lambda>v. [vx v, vy v, vz v]) vs)"

text \<open>All the results, or the first error.\<close>

fun sequence :: "(error + 'b) list \<Rightarrow> error + 'b list" where
  "sequence [] = Inr []"
| "sequence (Inl e # _) = Inl e"
| "sequence (Inr x # xs) = (case sequence xs of Inl e \<Rightarrow> Inl e | Inr ys \<Rightarrow> Inr (x # ys))"

record 'a rotation_blob =
  full_rots :: "'a mat3 list list"
  full_poses :: "'a list list"

text \<open>
  \<^verbatim>\<open>hand_pose_coeffs.mm(self.th_selected_comps)\<close> of line 101: \<^verbatim>\<open>mm\<close> raises unless the
  rows have as many hand coefficients as there are components.
\<close>

definition mm :: "'a::comm_ring_1 list list \<Rightarrow> 'a list list \<Rightarrow> error + 'a list list" where
  "mm hand_pose_coeffs comps =
    (if list_all (\<lambda>h. list_all (\<lambda>c. length c = length h) comps) hand_pose_coeffs
     then Inr (map (\<lambda>h. map (dot h) comps) hand_pose_coeffs)
     else Inl RuntimeError)"

text \<open>
  \<^verbatim>\<open>rotation_by_axisang\<close> (lines 96-112). A batch is the list of its rows; the empty list
  is the empty batch, whose rows are taken to have a length that fits. The buffers are
  read in the order of the source: the selected components (with PCA) before the mean
  pose. \<^verbatim>\<open>view(-1, 3)\<close> followed by \<^verbatim>\<open>view(batch_size, 16, 3, 3)\<close> raises unless every row
  of \<open>full_poses\<close> has 48 entries; on an empty batch neither raises, and the blob holds
  empty tensors.
\<close>

definition rotation_by_axisang ::
  "'a conversions \<Rightarrow> 'a::comm_ring_1 mano_layer \<Rightarrow> 'a list list \<Rightarrow> error + 'a rotation_blob" where
  "rotation_by_axisang X m pose_coeffs =
    (let hand_pose_coeffs = map (drop (rot_dim m)) pose_coeffs;
         root_pose_coeffs = map (take (rot_dim m)) pose_coeffs
     in case (if use_pca m
              then (case th_selected_comps m of
                      None \<Rightarrow> Inl AttributeError
                    | Some comps \<Rightarrow> mm hand_pose_coeffs comps)
              else Inr hand_pose_coeffs) of
          Inl e \<Rightarrow> Inl e
        | Inr full_hand_pose \<Rightarrow>
            (case th_hands_mean m of
               None \<Rightarrow> Inl AttributeError
             | Some mean \<Rightarrow>
                 (case sequence (map (bc_add mean) full_hand_pose) of
                    Inl e \<Rightarrow> Inl e
                  | Inr s \<Rightarrow>
                      if \<not> list_all (\<lambda>p. length p = 48) (map2 (@) root_pose_coeffs s)
                      then Inl RuntimeError
                      else Inr \<lparr> full_rots = map (\<lambda>p. map (so3_exp X) (chunks3 p))
                                               (map2 (@) root_pose_coeffs s),
                                 full_poses = map2 (@) root_pose_coeffs s \<rparr>)))"

text \<open>
  \<^verbatim>\<open>rotation_by_quaternion\<close> (lines 114-121). \<^verbatim>\<open>view((batch_size, 16, 4))\<close> raises unless
  every row has 64 entries, and \<^verbatim>\<open>reshape(batch_size, -1)\<close> raises on a tensor without
  elements. Neither the PCA flag nor a mean pose is read.
\<close>

definition rotation_by_quaternion ::
  "'a conversions \<Rightarrow> 'a list list \<Rightarrow> error + 'a rotation_blob" where
  "rotation_by_quaternion X pose_coeffs =
    (if pose_coeffs = [] \<or> \<not> list_all (\<lambda>p. length p = 64) pose_coeffs then Inl RuntimeError
     else Inr \<lparr> full_rots = map (\<lambda>p. map (quaternion_to_rotation_matrix X) (chunks4 p)) pose_coeffs,
                full_poses = map (\<lambda>p. flat3 (map (quaternion_to_angle_axis X) (chunks4 p))) pose_coeffs \<rparr>)"

section \<open>The skinning layer\<close>

text \<open>
  \<^verbatim>\<open>skinning_layer\<close> works on a whole batch at once; every operation of it acts on each
  item of the batch separately. The definitions below are the variables of the source on
  one item (one list of rotations \<open>rots\<close>, one row \<open>b\<close> of shape coefficients), under the
  names of the source; \<open>skinning_layer\<close> then checks the shapes as torch does and maps
  them over the batch.
\<close>

subsection \<open>Broadcasting\<close>

text \<open>
  torch combines two tensors elementwise along an axis when the two lengths agree or one
  of them is 1; the result has the other length, and the single entry is repeated.
\<close>

definition bc_ok :: "nat \<Rightarrow> nat \<Rightarrow> bool" where
  "bc_ok a b \<longleftrightarrow> a = b \<or> a = 1 \<or> b = 1"

definition bc_len :: "nat \<Rightarrow> nat \<Rightarrow> nat" where
  "bc_len a b = (if a = 1 then b else a)"

definition bc_map2 :: "('b \<Rightarrow> 'c \<Rightarrow> 'd) \<Rightarrow> 'b list \<Rightarrow> 'c list \<Rightarrow> 'd list" where
  "bc_map2 g xs ys =
    (if length xs = 1 \<and> length ys \<noteq> 1 then map (g (hd xs)) ys
     else if length ys = 1 \<and> length xs \<noteq> 1 then map (\<lambda>x. g x (hd ys)) xs
     else map2 g xs ys)"

subsection \<open>Blend shapes (lines 131-149)\<close>

definition B_S :: "'a::comm_ring_1 mano_layer \<Rightarrow> 'a list \<Rightarrow> 'a vec3 list" where
  "B_S m b = map (\<lambda>sd. Vec3 (dot (vx sd) b) (dot (vy sd) b) (dot (vz sd) b)) (th_shapedirs m)"

definition v_shaped :: "'a::comm_ring_1 mano_layer \<Rightarrow> 'a list \<Rightarrow> 'a vec3 list" where
  "v_shaped m b = bc_map2 vec3_add (th_v_template m) (B_S m b)"

text \<open>\<^verbatim>\<open>torch.matmul\<close> of one row of the joint regressor and a (V, 3) block.\<close>

definition regress :: "'a::comm_ring_1 list \<Rightarrow> 'a vec3 list \<Rightarrow> 'a vec3" where
  "regress row vs = Vec3 (dot row (map vx vs)) (dot row (map vy vs)) (dot row (map vz vs))"

definition J_of :: "'a::comm_ring_1 mano_layer \<Rightarrow> 'a list \<Rightarrow> 'a vec3 list" where
  "J_of m b = map (\<lambda>row. regress row (v_shaped m b)) (th_J_regressor m)"

definition hand_rot :: "'a mat3 list \<Rightarrow> 'a mat3 list" where
  "hand_rot rots = drop 1 rots"

definition rot_minus_mean_flat :: "'a::comm_ring_1 mat3 list \<Rightarrow> 'a list" where
  "rot_minus_mean_flat rots = concat (map (\<lambda>R. flat9 (mat3_sub R eye3)) (hand_rot rots))"

definition B_P :: "'a::comm_ring_1 mano_layer \<Rightarrow> 'a mat3 list \<Rightarrow> 'a vec3 list" where
  "B_P m rots =
    map (\<lambda>pd. Vec3 (dot (vx pd) (rot_minus_mean_flat rots))
                    (dot (vy pd) (rot_minus_mean_flat rots))
                    (dot (vz pd) (rot_minus_mean_flat rots))) (th_posedirs m)"

definition T_P :: "'a::comm_ring_1 mano_layer \<Rightarrow> 'a mat3 list \<Rightarrow> 'a list \<Rightarrow> 'a vec3 list" where
  "T_P m rots b = bc_map2 vec3_add (v_shaped m b) (B_P m rots)"

subsection \<open>The global rigid transformations (lines 151-191)\<close>

definition lev1_idxs :: "nat list" where
  "lev1_idxs = [1, 4, 7, 10, 13]"

definition lev2_idxs :: "nat list" where
  "lev2_idxs = [2, 5, 8, 11, 14]"

definition lev3_idxs :: "nat list" where
  "lev3_idxs = [3, 6, 9, 12, 15]"

definition reorder_idxs :: "nat list" where
  "reorder_idxs = [0, 1, 6, 11, 2, 7, 12, 3, 8, 13, 4, 9, 14, 5, 10, 15]"

definition root_transf :: "'a::comm_ring_1 mat3 list \<Rightarrow> 'a vec3 list \<Rightarrow> 'a mat4" where
  "root_transf rots J = th_with_zeros (cat34 (rots ! 0) (J ! 0))"

text \<open>The rotations and the joint locations of one level, picked by index.\<close>

definition lev_rots :: "nat list \<Rightarrow> 'a mat3 list \<Rightarrow> 'a mat3 list" where
  "lev_rots idxs rots = map (\<lambda>idx. hand_rot rots ! (idx - 1)) idxs"

definition lev_j :: "nat list \<Rightarrow> 'a vec3 list \<Rightarrow> 'a vec3 list" where
  "lev_j idxs J = map (\<lambda>idx. J ! idx) idxs"

definition lev1_flt :: "'a::comm_ring_1 mat3 list \<Rightarrow> 'a vec3 list \<Rightarrow> 'a mat4 list" where
  "lev1_flt rots J =
    (let lev1_j_rel = map (\<lambda>j. vec3_sub j (J ! 0)) (lev_j lev1_idxs J);
         lev1_rel_transform_flt = map th_with_zeros (map2 cat34 (lev_rots lev1_idxs rots) lev1_j_rel);
         root_trans_flt = replicate 5 (root_transf rots J)
     in map2 mat4_mul root_trans_flt lev1_rel_transform_flt)"

definition lev2_flt :: "'a::comm_ring_1 mat3 list \<Rightarrow> 'a vec3 list \<Rightarrow> 'a mat4 list" where
  "lev2_flt rots J =
    (let lev2_j_rel = map2 vec3_sub (lev_j lev2_idxs J) (lev_j lev1_idxs J);
         lev2_rel_transform_flt = map th_with_zeros (map2 cat34 (lev_rots lev2_idxs rots) lev2_j_rel)
     in map2 mat4_mul (lev1_flt rots J) lev2_rel_transform_flt)"

definition lev3_flt :: "'a::comm_ring_1 mat3 list \<Rightarrow> 'a vec3 list \<Rightarrow> 'a mat4 list" where
  "lev3_flt rots J =
    (let lev3_j_rel = map2 vec3_sub (lev_j lev3_idxs J) (lev_j lev2_idxs J);
         lev3_rel_transform_flt = map th_with_zeros (map2 cat34 (lev_rots lev3_idxs rots) lev3_j_rel)
     in map2 mat4_mul (lev2_flt rots J) lev3_rel_transform_flt)"

definition all_transforms :: "'a::comm_ring_1 mat3 list \<Rightarrow> 'a vec3 list \<Rightarrow> 'a mat4 list" where
  "all_transforms rots J = [root_transf rots J] @ lev1_flt rots J @ lev2_flt rots J @ lev3_flt rots J"

definition G_k :: "'a::comm_ring_1 mat3 list \<Rightarrow> 'a vec3 list \<Rightarrow> 'a mat4 list" where
  "G_k rots J = map (\<lambda>i. all_transforms rots J ! i) reorder_idxs"

subsection \<open>Skinning (lines 193-211)\<close>

text \<open>
  One joint of \<open>G_prime_k\<close>: the transform minus the 4x4 matrix whose last column is the
  transform applied to the joint location extended by 0.
\<close>

definition G_prime :: "'a::comm_ring_1 mat4 \<Rightarrow> 'a vec3 \<Rightarrow> 'a mat4" where
  "G_prime G j =
    (let tmp2 = mat4_vec G (snoc3 j 0)
     in mat4_sub G (Mat4 (Vec4 0 0 0 (v1 tmp2)) (Vec4 0 0 0 (v2 tmp2))
                         (Vec4 0 0 0 (v3 tmp2)) (Vec4 0 0 0 (v4 tmp2))))"

definition G_prime_k :: "'a::comm_ring_1 mat3 list \<Rightarrow> 'a vec3 list \<Rightarrow> 'a mat4 list" where
  "G_prime_k rots J = map2 G_prime (G_k rots J) J"

text \<open>
  One vertex of \<open>T\<close>: entry (a, b) is the contraction over the joints of the entries (a, b)
  of \<open>G_prime_k\<close> with the weights of the vertex.
\<close>

definition blend_row :: "('a mat4 \<Rightarrow> 'a vec4) \<Rightarrow> 'a::comm_ring_1 mat4 list \<Rightarrow> 'a list \<Rightarrow> 'a vec4" where
  "blend_row sel Gs w =
    Vec4 (dot (map (\<lambda>G. v1 (sel G)) Gs) w) (dot (map (\<lambda>G. v2 (sel G)) Gs) w)
         (dot (map (\<lambda>G. v3 (sel G)) Gs) w) (dot (map (\<lambda>G. v4 (sel G)) Gs) w)"

definition T_of :: "'a::comm_ring_1 mat4 list \<Rightarrow> 'a list \<Rightarrow> 'a mat4" where
  "T_of Gs w = Mat4 (blend_row m1 Gs w) (blend_row m2 Gs w) (blend_row m3 Gs w) (blend_row m4 Gs w)"

text \<open>
  The vertices before centering: per vertex, \<open>T\<close> times the homogeneous rest position,
  first three components.
\<close>

definition verts_of :: "'a::comm_ring_1 mano_layer \<Rightarrow> 'a mat3 list \<Rightarrow> 'a list \<Rightarrow> 'a vec3 list" where
  "verts_of m rots b =
    bc_map2 (\<lambda>w p. xyz (mat4_vec (T_of (G_prime_k rots (J_of m b)) w) (snoc3 p 1)))
         (th_weights m) (T_P m rots b)"

subsection \<open>Joints, fingertips and centering (lines 210-249)\<close>

definition tip_idxs :: "'a mano_layer \<Rightarrow> nat list" where
  "tip_idxs m = (if side m = ''right'' then [745, 317, 444, 556, 673] else [745, 317, 445, 556, 673])"

definition snap_order :: "nat list" where
  "snap_order = [0, 13, 14, 15, 16, 1, 2, 3, 17, 4, 5, 6, 18, 10, 11, 12, 19, 7, 8, 9, 20]"

text \<open>Line 210: the translation column of every global transform.\<close>

definition joints16 :: "'a::comm_ring_1 mano_layer \<Rightarrow> 'a mat3 list \<Rightarrow> 'a list \<Rightarrow> 'a vec3 list" where
  "joints16 m rots b = map tsl3 (G_k rots (J_of m b))"

definition tips :: "'a::comm_ring_1 mano_layer \<Rightarrow> 'a mat3 list \<Rightarrow> 'a list \<Rightarrow> 'a vec3 list" where
  "tips m rots b = map (\<lambda>i. verts_of m rots b ! i) (tip_idxs m)"

text \<open>Lines 221 and 232: the 21 joints in the order of the output, before centering.\<close>

definition joints21 :: "'a::comm_ring_1 mano_layer \<Rightarrow> 'a mat3 list \<Rightarrow> 'a list \<Rightarrow> 'a vec3 list" where
  "joints21 m rots b = map (\<lambda>i. (joints16 m rots b @ tips m rots b) ! i) snap_order"

definition center_joint_of :: "'a::comm_ring_1 mano_layer \<Rightarrow> 'a mat3 list \<Rightarrow> 'a list \<Rightarrow> 'a vec3" where
  "center_joint_of m rots b =
    (case center_idx m of Some c \<Rightarrow> py_nth (joints21 m rots b) c | None \<Rightarrow> zero3)"

text \<open>Lines 243-249: the centre is subtracted from the translation of one transform.\<close>

definition shift_transf :: "'a::comm_ring_1 vec3 \<Rightarrow> 'a mat4 \<Rightarrow> 'a mat4" where
  "shift_transf c G = th_with_zeros (cat34 (rot3 G) (vec3_sub (tsl3 G) c))"

record 'a skinning_blob =
  verts :: "'a vec3 list list"
  joints :: "'a vec3 list list"
  center_joint :: "'a vec3 list"
  transforms_abs :: "'a mat4 list list"

text \<open>The shape of an axis of a buffer, read off its first entry.\<close>

definition n_shape :: "'a mano_layer \<Rightarrow> nat" where
  "n_shape m = (case th_shapedirs m of [] \<Rightarrow> 0 | sd # _ \<Rightarrow> length (vx sd))"

definition n_pose :: "'a mano_layer \<Rightarrow> nat" where
  "n_pose m = (case th_posedirs m of [] \<Rightarrow> 0 | pd # _ \<Rightarrow> length (vx pd))"

text \<open>The number of vertices of \<open>v_shaped\<close> and of \<open>verts_of\<close>, where nothing raises.\<close>

definition n_shaped :: "'a mano_layer \<Rightarrow> nat" where
  "n_shaped m = bc_len (length (th_v_template m)) (length (th_shapedirs m))"

definition n_verts :: "'a mano_layer \<Rightarrow> nat" where
  "n_verts m = bc_len (length (th_weights m)) (length (th_posedirs m))"

text \<open>
  \<^verbatim>\<open>skinning_layer\<close> (lines 123-257). The source has no check of its own; the branches of
  \<open>skinning_raises\<close> are the places where torch or Python raises, in the order of the source:
  \<^item> line 127, \<^verbatim>\<open>full_rots[:, 0]\<close>: IndexError when an item has no rotation;
  \<^item> line 133, \<^verbatim>\<open>matmul\<close> of the shape basis with the shape coefficients: RuntimeError unless
    every row of \<open>betas\<close> has as many coefficients as the basis;
  \<^item> line 136, the broadcast sum of the template and \<open>B_S\<close>: RuntimeError unless their
    numbers of vertices can be broadcast; then \<^verbatim>\<open>matmul\<close> with the joint regressor:
    RuntimeError unless its rows have as many entries as the sum has vertices;
  \<^item> line 146, \<^verbatim>\<open>matmul\<close> of the pose basis with the flattened rotations: RuntimeError unless
    the 9 entries of each non-root rotation are as many as the pose basis has columns;
  \<^item> line 149, the broadcast sum with \<open>B_P\<close>: RuntimeError unless the two batch sizes can
    be broadcast, and the numbers of vertices too;
  \<^item> line 153, \<^verbatim>\<open>J[:, 0, :]\<close>: IndexError when the joint regressor has no row; then the
    \<^verbatim>\<open>view\<close> of the root joints with the batch size of the rotations: RuntimeError unless
    the two batch sizes are equal;
  \<^item> lines 159-161: IndexError when an item has fewer than 16 rotations;
  \<^item> lines 162-164: IndexError when the joint regressor has fewer than 16 rows;
  \<^item> line 194, \<^verbatim>\<open>cat\<close> of the joints with 16 zeros: RuntimeError when the joint regressor
    has more than 16 rows;
  \<^item> line 200, \<^verbatim>\<open>matmul\<close> with the skinning weights: RuntimeError unless every vertex has
    16 weights;
  \<^item> line 203, \<^verbatim>\<open>cat\<close> of \<open>T_P\<close> with a row of ones as long as \<open>B_P\<close>: RuntimeError unless
    \<open>T_P\<close> has as many vertices as \<open>B_P\<close>;
  \<^item> line 209, the broadcast product of \<open>T\<close> and \<open>T_P_homo\<close>: RuntimeError unless the
    numbers of vertices of the weights and of \<open>T_P\<close> can be broadcast;
  \<^item> lines 217 and 219: IndexError when a fingertip index is not a vertex of \<open>verts\<close>;
  \<^item> line 235: IndexError when the centre index is not one of the 21 joints.

  On an empty batch no \<^verbatim>\<open>view\<close> raises, and the blob holds empty tensors. A tensor is the
  list of its entries along the first axis; the empty list is the tensor without
  entries, whose other axes are taken to have lengths that fit.
\<close>

definition skinning_raises ::
  "'a mano_layer \<Rightarrow> 'a mat3 list list \<Rightarrow> 'a list list \<Rightarrow> error option" where
  "skinning_raises m full_rots' betas' =
    (if \<not> list_all (\<lambda>rots. rots \<noteq> []) full_rots' then Some IndexError
     else if \<not> list_all (\<lambda>b. length b = n_shape m) betas' then Some RuntimeError
     else if \<not> bc_ok (length (th_v_template m)) (length (th_shapedirs m)) then Some RuntimeError
     else if \<not> list_all (\<lambda>row. length row = n_shaped m) (th_J_regressor m) then Some RuntimeError
     else if \<not> list_all (\<lambda>rots. 9 * (length rots - 1) = n_pose m) full_rots' then Some RuntimeError
     else if \<not> bc_ok (length full_rots') (length betas') then Some RuntimeError
     else if \<not> bc_ok (n_shaped m) (length (th_posedirs m)) then Some RuntimeError
     else if th_J_regressor m = [] then Some IndexError
     else if length full_rots' \<noteq> length betas' then Some RuntimeError
     else if \<not> list_all (\<lambda>rots. 16 \<le> length rots) full_rots' then Some IndexError
     else if length (th_J_regressor m) < 16 then Some IndexError
     else if length (th_J_regressor m) \<noteq> 16 then Some RuntimeError
     else if \<not> list_all (\<lambda>w. length w = 16) (th_weights m) then Some RuntimeError
     else if bc_len (n_shaped m) (length (th_posedirs m)) \<noteq> length (th_posedirs m)
       then Some RuntimeError
     else if \<not> bc_ok (length (th_weights m)) (length (th_posedirs m)) then Some RuntimeError
     else if \<not> list_all (\<lambda>i. i < n_verts m) (tip_idxs m) then Some IndexError
     else if \<not> (case center_idx m of None \<Rightarrow> True | Some c \<Rightarrow> py_index_ok 21 c) then Some IndexError
     else None)"

text \<open>The blob that \<^verbatim>\<open>skinning_layer\<close> returns when nothing raises (lines 234-257).\<close>

definition skinning_result ::
  "'a::comm_ring_1 mano_layer \<Rightarrow> 'a mat3 list list \<Rightarrow> 'a list list \<Rightarrow> 'a skinning_blob" where
  "skinning_result m full_rots' betas' =
    \<lparr> verts = map2 (\<lambda>rots b. map (\<lambda>v. vec3_sub v (center_joint_of m rots b)) (verts_of m rots b))
                full_rots' betas',
      joints = map2 (\<lambda>rots b. map (\<lambda>j. vec3_sub j (center_joint_of m rots b)) (joints21 m rots b))
                full_rots' betas',
      center_joint = map2 (center_joint_of m) full_rots' betas',
      transforms_abs = map2 (\<lambda>rots b. map (shift_transf (center_joint_of m rots b)) (G_k rots (J_of m b)))
                full_rots' betas' \<rparr>"

definition skinning_layer ::
  "'a::comm_ring_1 mano_layer \<Rightarrow> 'a mat3 list list \<Rightarrow> 'a list list \<Rightarrow> error + 'a skinning_blob" where
  "skinning_layer m full_rots' betas' =
    (case skinning_raises m full_rots' betas' of
       Some e \<Rightarrow> Inl e
     | None \<Rightarrow> Inr (skinning_result m full_rots' betas'))"

section \<open>The forward pass\<close>

record 'a MANOOutput =
  out_verts :: "'a vec3 list list"
  out_joints :: "'a vec3 list list"
  out_center_idx :: "int option"
  out_center_joint :: "'a vec3 list"
  out_full_poses :: "'a list list"
  out_betas :: "'a list list"
  out_transforms_abs :: "'a mat4 list list"

text \<open>
  The call \<^verbatim>\<open>self.rotation_layer(pose_coeffs)\<close> of line 261: the method that the
  constructor has bound.
\<close>

definition call_rotation_layer ::
  "'a conversions \<Rightarrow> 'a::comm_ring_1 mano_layer \<Rightarrow> 'a list list \<Rightarrow> error + 'a rotation_blob" where
  "call_rotation_layer X m pose_coeffs =
    (case rotation_layer m of
       Rotation_by_axisang \<Rightarrow> rotation_by_axisang X m pose_coeffs
     | Rotation_by_quaternion \<Rightarrow> rotation_by_quaternion X pose_coeffs)"

text \<open>
  \<^verbatim>\<open>forward\<close> (lines 259-273). The layer is an argument and is not part of the result:
  no line of \<^verbatim>\<open>forward\<close>, of the rotation layers or of \<^verbatim>\<open>skinning_layer\<close> assigns to
  an attribute or a buffer.
\<close>

definition forward ::
  "'a conversions \<Rightarrow> 'a::comm_ring_1 mano_layer \<Rightarrow> 'a list list \<Rightarrow> 'a list list \<Rightarrow> error + 'a MANOOutput" where
  "forward X m pose_coeffs betas' =
    (case call_rotation_layer X m pose_coeffs of
       Inl e \<Rightarrow> Inl e
     | Inr rot_blob \<Rightarrow>
         (case skinning_layer m (full_rots rot_blob) betas' of
            Inl e \<Rightarrow> Inl e
          | Inr skinning_blob \<Rightarrow>
              Inr \<lparr> out_verts = verts skinning_blob,
                    out_joints = joints skinning_blob,
                    out_center_idx = center_idx m,
                    out_center_joint = center_joint skinning_blob,
                    out_full_poses = full_poses rot_blob,
                    out_betas = betas',
                    out_transforms_abs = transforms_abs skinning_blob \<rparr>))"

section \<open>The kinematic tree and the shapes of the asset\<close>

text \<open>
  The tree that the three levels of lines 156-158 and the diagram of lines 223-229
  describe: the joints of level 1 hang from the root, every other joint from the joint
  before it. \<open>local_transf\<close> is the transform of joint \<open>j\<close> relative to its parent.
\<close>

definition kin_parent :: "nat \<Rightarrow> nat" where
  "kin_parent j = (if j \<in> set lev1_idxs then 0 else j - 1)"

definition local_transf :: "'a::comm_ring_1 mat3 list \<Rightarrow> 'a vec3 list \<Rightarrow> nat \<Rightarrow> 'a mat4" where
  "local_transf rots J j = th_with_zeros (cat34 (rots ! j) (vec3_sub (J ! j) (J ! kin_parent j)))"


text \<open>
  The number of hand coefficients in a row of pose coefficients: the number of selected
  components with PCA, 45 without.
\<close>

definition n_hand :: "'a mano_layer \<Rightarrow> nat" where
  "n_hand m =
    (if use_pca m then (case th_selected_comps m of Some (c # _) \<Rightarrow> length c | _ \<Rightarrow> 0) else 45)"

text \<open>
  The buffers have the shapes of a MANO asset: V vertices, 16 joints, 135 pose
  directions, 45 hand pose entries, and the fingertip indices are vertices. On such a
  layer no broadcast between buffers repeats an entry.
\<close>

definition wf_layer :: "'a mano_layer \<Rightarrow> bool" where
  "wf_layer m \<longleftrightarrow>
     length (th_shapedirs m) = length (th_v_template m) \<and>
     length (th_posedirs m) = length (th_v_template m) \<and>
     length (th_weights m) = length (th_v_template m) \<and>
     length (th_J_regressor m) = 16 \<and>
     (\<forall>row \<in> set (th_J_regressor m). length row = length (th_v_template m)) \<and>
     (\<forall>w \<in> set (th_weights m). length w = 16) \<and>
     (\<forall>sd \<in> set (th_shapedirs m).
        length (vx sd) = n_shape m \<and> length (vy sd) = n_shape m \<and> length (vz sd) = n_shape m) \<and>
     (\<forall>pd \<in> set (th_posedirs m).
        length (vx pd) = 135 \<and> length (vy pd) = 135 \<and> length (vz pd) = 135) \<and>
     (\<forall>i \<in> set (tip_idxs m). i < length (th_v_template m)) \<and>
     (case th_hands_mean m of None \<Rightarrow> True | Some mean \<Rightarrow> length mean = 45) \<and>
     (case th_selected_comps m of None \<Rightarrow> True
      | Some comps \<Rightarrow> length comps = 45 \<and> (\<forall>c \<in> set comps. length c = n_hand m))"

text \<open>The rows of the skinning weights sum to 1.\<close>

definition weights_normalised :: "'a::comm_ring_1 mano_layer \<Rightarrow> bool" where
  "weights_normalised m \<longleftrightarrow> (\<forall>w \<in> set (th_weights m). sum_list w = 1)"

section \<open>Example data\<close>

text \<open>
  A small asset over the integers with the shapes of MANO (778 vertices, one shape
  direction), a quarter turn about the third axis, and a batch of two items.
\<close>

definition ex_smpl :: "int smpl_data" where
  "ex_smpl =
    \<lparr> betas = [0],
      shapedirs = replicate 778 (Vec3 [1] [0] [0]),
      posedirs = replicate 778 (Vec3 (replicate 135 0) (replicate 135 0) (replicate 135 0)),
      v_template = replicate 778 (Vec3 1 2 3),
      J_regressor = map (\<lambda>j. int j # replicate 777 0) [0..<16],
      weights = replicate 778 (1 # replicate 15 0),
      f = [Vec3 0 1 2],
      kintree_table = [[-1, 0, 1, 2, 0, 4, 5, 0, 7, 8, 0, 10, 11, 0, 13, 14]],
      hands_components = replicate 45 (replicate 45 0),
      hands_mean = replicate 45 1 \<rparr>"

definition ex_layer :: "int option \<Rightarrow> int mano_layer" where
  "ex_layer c =
    \<lparr> center_idx = c,
      rot_mode = ''axisang'',
      side = ''right'',
      use_pca = False,
      rotation_layer = Rotation_by_axisang,
      rot_dim = 3,
      th_betas = [0],
      th_shapedirs = replicate 778 (Vec3 [1] [0] [0]),
      th_posedirs = replicate 778 (Vec3 (replicate 135 0) (replicate 135 0) (replicate 135 0)),
      th_v_template = replicate 778 (Vec3 1 2 3),
      th_J_regressor = map (\<lambda>j. int j # replicate 777 0) [0..<16],
      th_weights = replicate 778 (1 # replicate 15 0),
      th_faces = [Vec3 0 1 2],
      kintree_parents = [-1, 0, 1, 2, 0, 4, 5, 0, 7, 8, 0, 10, 11, 0, 13, 14],
      th_hands_mean = Some (replicate 45 0),
      th_selected_comps = None \<rparr>"

definition ex_R :: "int mat3" where
  "ex_R = Mat3 (Vec3 0 (- 1) 0) (Vec3 1 0 0) (Vec3 0 0 1)"

definition ex_rots :: "int mat3 list list" where
  "ex_rots = [replicate 16 ex_R, replicate 16 eye3]"

definition ex_betas :: "int list list" where
  "ex_betas = [[1], [2]]"

definition ex_J :: "int vec3 list" where
  "ex_J = map (\<lambda>j. Vec3 (int j) 1 0) [0..<16]"

definition ex_pose :: "int list list" where
  "ex_pose = replicate 2 (replicate 48 0)"

definition ex_X :: "int conversions" where
  "ex_X = \<lparr> so3_exp = (\<lambda>v. if v = zero3 then eye3 else ex_R),
            quaternion_to_rotation_matrix = (\<lambda>q. if q = Vec4 1 0 0 0 then eye3 else ex_R),
            quaternion_to_angle_axis = (\<lambda>q. zero3) \<rparr>"

section \<open>The sixteen transforms, one by one\<close>

lemma G_k_unfold:
  assumes "16 \<le> length rots"
  shows "G_k rots J =
   (let G0 = root_transf rots J;
        G1 = mat4_mul G0 (local_transf rots J 1);
        G2 = mat4_mul G1 (local_transf rots J 2);
        G3 = mat4_mul G2 (local_transf rots J 3);
        G4 = mat4_mul G0 (local_transf rots J 4);
        G5 = mat4_mul G4 (local_transf rots J 5);
        G6 = mat4_mul G5 (local_transf rots J 6);
        G7 = mat4_mul G0 (local_transf rots J 7);
        G8 = mat4_mul G7 (local_transf rots J 8);
        G9 = mat4_mul G8 (local_transf rots J 9);
        G10 = mat4_mul G0 (local_transf rots J 10);
        G11 = mat4_mul G10 (local_transf rots J 11);
        G12 = mat4_mul G11 (local_transf rots J 12);
        G13 = mat4_mul G0 (local_transf rots J 13);
        G14 = mat4_mul G13 (local_transf rots J 14);
        G15 = mat4_mul G14 (local_transf rots J 15)
    in [G0, G1, G2, G3, G4, G5, G6, G7, G8, G9, G10, G11, G12, G13, G14, G15])"
proof -
  have "1 \<le> length rots" using assms by simp
  then show ?thesis
  by (simp add: G_k_def reorder_idxs_def all_transforms_def lev1_flt_def lev2_flt_def lev3_flt_def
      lev_rots_def lev_j_def hand_rot_def lev1_idxs_def lev2_idxs_def lev3_idxs_def
      local_transf_def kin_parent_def Let_def numeral_eq_Suc)
qed

lemma below16:
  assumes "j < 16"
  shows "j \<in> {0, 1, 2, 3, 4, 5, 6, 7, 8, 9, 10, 11, 12, 13, 14, 15::nat}"
proof -
  from assms have "j = 0 \<or> j = 1 \<or> j = 2 \<or> j = 3 \<or> j = 4 \<or> j = 5 \<or> j = 6 \<or> j = 7 \<or> j = 8 \<or>
    j = 9 \<or> j = 10 \<or> j = 11 \<or> j = 12 \<or> j = 13 \<or> j = 14 \<or> j = 15" by arith
  then show ?thesis by simp
qed

section \<open>The kinematic chain\<close>

text \<open>
  Claim C1. For 16 rotations and any joint locations, the transform of the root joint is
  the root rotation beside the root joint location over the row [0, 0, 0, 1], and the
  transform of every other joint \<open>j\<close> is the composed transform of its parent times the
  local transform of \<open>j\<close>, whose translation is the location of \<open>j\<close> minus the location
  of its parent. The levels are computed one after the other, each from the results of
  the level before.
\<close>
theorem kinematic_chain:
  assumes "length rots = 16"
  shows "G_k rots J ! 0 = th_with_zeros (cat34 (rots ! 0) (J ! 0)) \<and>
         m4 (G_k rots J ! 0) = Vec4 0 0 0 1 \<and>
         (\<forall>j \<in> {1..15}. G_k rots J ! j = mat4_mul (G_k rots J ! kin_parent j) (local_transf rots J j))"
proof -
  have len: "16 \<le> length rots" using assms by simp
  have root: "G_k rots J ! 0 = th_with_zeros (cat34 (rots ! 0) (J ! 0))"
    by (simp add: G_k_unfold [OF len] Let_def root_transf_def)
  have row: "m4 (G_k rots J ! 0) = Vec4 0 0 0 1"
    by (simp add: root th_with_zeros_def)
  have step: "G_k rots J ! j = mat4_mul (G_k rots J ! kin_parent j) (local_transf rots J j)"
    if "j \<in> {1..15}" for j
  proof -
    from that have "j < 16" and "j \<noteq> 0" by auto
    with below16 [of j] show ?thesis
      by (auto simp add: G_k_unfold [OF len] Let_def kin_parent_def lev1_idxs_def)
  qed
  from root row step show ?thesis by blast
qed

text \<open>
  At sixteen quarter turns and joints on a line: joint 5 is composed from joint 4, and
  the root transform is the quarter turn beside the root location.
\<close>

theorem kinematic_chain_witness:
  "length (replicate 16 ex_R) = 16 \<and> (5::nat) \<in> {1..15} \<and>
   G_k (replicate 16 ex_R) ex_J ! 5 =
     mat4_mul (G_k (replicate 16 ex_R) ex_J ! 4)
              (th_with_zeros (cat34 ex_R (vec3_sub (ex_J ! 5) (ex_J ! 4)))) \<and>
   G_k (replicate 16 ex_R) ex_J ! 0 = Mat4 (Vec4 0 (- 1) 0 0) (Vec4 1 0 0 1) (Vec4 0 0 1 0) (Vec4 0 0 0 1)"
  using kinematic_chain [of "replicate 16 ex_R" ex_J]
  by (simp add: kin_parent_def lev1_idxs_def local_transf_def ex_J_def ex_R_def th_with_zeros_def cat34_def snoc3_def)

section \<open>The order of the joints\<close>

text \<open>
  Claim C6. The reorder of the 21 joints (16 skeletal joints followed by 5 fingertips) is
  the fixed table [0, 13, 14, 15, 16, 1, 2, 3, 17, 4, 5, 6, 18, 10, 11, 12, 19, 7, 8, 9, 20]:
  slot \<open>i\<close> of the output is slot \<open>snap_order ! i\<close> of the native order. The table has no
  duplicate, its entries are exactly 0, ..., 20, and it is a bijection on them.
\<close>
theorem snap_order_bijection:
  "snap_order = [0, 13, 14, 15, 16, 1, 2, 3, 17, 4, 5, 6, 18, 10, 11, 12, 19, 7, 8, 9, 20] \<and>
   distinct snap_order \<and> set snap_order = {..<21} \<and>
   bij_betw ((!) snap_order) {..<21} {..<21} \<and>
   joints21 m rots b = map ((!) (joints16 m rots b @ tips m rots b)) snap_order"
proof -
  have d: "distinct snap_order" by (simp add: snap_order_def)
  have s: "set snap_order = {..<21}"
    by (simp add: snap_order_def lessThan_nat_numeral lessThan_Suc insert_commute)
  have l: "length snap_order = 21" by (simp add: snap_order_def)
  have "bij_betw ((!) snap_order) {..<length snap_order} (set snap_order)"
    using d by (rule bij_betw_nth) simp_all
  then have b: "bij_betw ((!) snap_order) {..<21} {..<21}" by (simp only: l s)
  have j: "joints21 m rots b = map ((!) (joints16 m rots b @ tips m rots b)) snap_order"
    by (simp add: joints21_def)
  from d s b j show ?thesis by (simp add: snap_order_def)
qed

section \<open>What a returning call has checked\<close>

lemma skinning_layer_Inr:
  "skinning_layer m rs bs = Inr out \<longleftrightarrow> skinning_raises m rs bs = None \<and> out = skinning_result m rs bs"
  by (auto simp: skinning_layer_def split: option.splits)

lemma skinning_raises_None:
  assumes "skinning_raises m rs bs = None"
  shows "length rs = length bs" and "length (th_J_regressor m) = 16"
    and "\<forall>rots \<in> set rs. 16 \<le> length rots"
    and "\<forall>b \<in> set bs. length b = n_shape m"
    and "\<forall>i \<in> set (tip_idxs m). i < n_verts m"
    and "case center_idx m of None \<Rightarrow> True | Some c \<Rightarrow> py_index_ok 21 c"
  using assms by (simp_all add: skinning_raises_def list_all_iff bc_ok_def split: if_splits)

lemma length_joints21: "length (joints21 m rots b) = 21"
  by (simp add: joints21_def snap_order_def)

lemma length_G_k: "length (G_k rots J) = 16"
  by (simp add: G_k_def reorder_idxs_def)

lemma vec3_sub_self: "vec3_sub v v = zero3"
  by (simp add: vec3_sub_def zero3_def)

lemma vec3_sub_zero: "vec3_sub v zero3 = v"
  by (simp add: vec3_sub_def zero3_def)

lemma py_nth_map:
  assumes "py_index_ok (length xs) i"
  shows "py_nth (map g xs) i = g (py_nth xs i)"
proof -
  define k where "k = nat (if i < 0 then int (length xs) + i else i)"
  have "k < length xs"
    using assms by (auto simp: py_index_ok_def k_def)
  then have "map g xs ! k = g (xs ! k)" by (rule nth_map)
  then show ?thesis by (cases "i < 0") (simp_all add: py_nth_def k_def)
qed

lemma map2_nth:
  assumes "i < length xs" and "length xs = length ys"
  shows "map2 g xs ys ! i = g (xs ! i) (ys ! i)"
  using assms by simp

lemma map2_replicate_const:
  "length xs = length ys \<Longrightarrow> map2 (\<lambda>x y. c) xs ys = replicate (length xs) c"
  by (induction xs ys rule: list_induct2) simp_all

section \<open>Centering\<close>

text \<open>
  Claim C4. Whenever \<open>skinning_layer\<close> returns: with a centre index \<open>c\<close>, joint \<open>c\<close>
  (Python indexing) of every item of the returned joints is the zero vector; with no
  centre index, the reported centre of every item is the zero vector, and the returned
  vertices and joints are the vertices and joints computed before the centering step.
\<close>
theorem centering:
  assumes "skinning_layer m rs bs = Inr out"
  shows "(\<forall>c. center_idx m = Some c \<longrightarrow> (\<forall>js \<in> set (joints out). py_nth js c = zero3)) \<and>
         (center_idx m = None \<longrightarrow>
            center_joint out = replicate (length rs) zero3 \<and>
            verts out = map2 (verts_of m) rs bs \<and>
            joints out = map2 (joints21 m) rs bs)"
proof -
  from assms have ok: "skinning_raises m rs bs = None" and out: "out = skinning_result m rs bs"
    by (simp_all add: skinning_layer_Inr)
  have len: "length rs = length bs" using ok by (rule skinning_raises_None)
  have some: "py_nth js c = zero3" if c: "center_idx m = Some c" and js: "js \<in> set (joints out)" for c js
  proof -
    have idx: "py_index_ok 21 c" using skinning_raises_None(6) [OF ok] c by simp
    from js obtain rots b where
      "js = map (\<lambda>j. vec3_sub j (center_joint_of m rots b)) (joints21 m rots b)"
      by (auto simp: out skinning_result_def)
    then have "py_nth js c = vec3_sub (py_nth (joints21 m rots b) c) (center_joint_of m rots b)"
      using idx by (simp add: py_nth_map length_joints21)
    then show ?thesis by (simp add: center_joint_of_def c vec3_sub_self)
  qed
  have none: "center_joint out = replicate (length rs) zero3 \<and> verts out = map2 (verts_of m) rs bs \<and>
      joints out = map2 (joints21 m) rs bs" if "center_idx m = None"
    using that len
    by (simp add: out skinning_result_def center_joint_of_def vec3_sub_zero map2_replicate_const)
  from some none show ?thesis by blast
qed


lemma replicate_778: "replicate 778 x = x # replicate 777 x"
proof -
  have "(778::nat) = Suc 777" by simp
  then show ?thesis by (metis replicate_Suc)
qed

lemma ex_layer_raises: "py_index_ok 21 c \<Longrightarrow> skinning_raises (ex_layer (Some c)) ex_rots ex_betas = None"
  "skinning_raises (ex_layer None) ex_rots ex_betas = None"
  by (simp_all add: skinning_raises_def ex_layer_def ex_rots_def ex_betas_def n_shape_def n_pose_def
      replicate_778 tip_idxs_def bc_ok_def bc_len_def n_shaped_def n_verts_def list_all_iff)

text \<open>
  With centre index 3, and with none, on the batch of two items: the call returns, joint
  3 of the first item is the zero vector, and without a centre the reported centres are
  zero.
\<close>

theorem centering_witness:
  "skinning_layer (ex_layer (Some 3)) ex_rots ex_betas =
     Inr (skinning_result (ex_layer (Some 3)) ex_rots ex_betas) \<and>
   py_nth (joints (skinning_result (ex_layer (Some 3)) ex_rots ex_betas) ! 0) 3 = zero3 \<and>
   skinning_layer (ex_layer None) ex_rots ex_betas =
     Inr (skinning_result (ex_layer None) ex_rots ex_betas) \<and>
   center_joint (skinning_result (ex_layer None) ex_rots ex_betas) = [zero3, zero3]"
proof -
  have a: "skinning_layer (ex_layer (Some 3)) ex_rots ex_betas =
     Inr (skinning_result (ex_layer (Some 3)) ex_rots ex_betas)"
    by (simp add: skinning_layer_def ex_layer_raises py_index_ok_def)
  have b: "skinning_layer (ex_layer None) ex_rots ex_betas =
     Inr (skinning_result (ex_layer None) ex_rots ex_betas)"
    by (simp add: skinning_layer_def ex_layer_raises)
  have in_set: "joints (skinning_result (ex_layer (Some 3)) ex_rots ex_betas) ! 0
      \<in> set (joints (skinning_result (ex_layer (Some 3)) ex_rots ex_betas))"
    by (simp add: skinning_result_def ex_rots_def ex_betas_def)
  have c3: "center_idx (ex_layer (Some 3)) = Some 3" and cn: "center_idx (ex_layer None) = None"
    by (simp_all add: ex_layer_def)
  from centering [OF a] c3 in_set
  have "py_nth (joints (skinning_result (ex_layer (Some 3)) ex_rots ex_betas) ! 0) 3 = zero3"
    by blast
  moreover from centering [OF b] cn
  have "center_joint (skinning_result (ex_layer None) ex_rots ex_betas) = [zero3, zero3]"
    by (simp add: ex_rots_def)
  ultimately show ?thesis using a b by simp
qed

lemma rot3_shift: "rot3 (shift_transf c G) = rot3 G"
  by (simp add: shift_transf_def rot3_def th_with_zeros_def cat34_def snoc3_def xyz_def)

lemma tsl3_shift: "tsl3 (shift_transf c G) = vec3_sub (tsl3 G) c"
  by (simp add: shift_transf_def tsl3_def th_with_zeros_def cat34_def snoc3_def vec3_sub_def)

lemma m4_shift: "m4 (shift_transf c G) = Vec4 0 0 0 1"
  by (simp add: shift_transf_def th_with_zeros_def)

lemma m4_mul:
  assumes "m4 A = Vec4 0 0 0 1" and "m4 B = Vec4 0 0 0 1"
  shows "m4 (mat4_mul A B) = Vec4 0 0 0 1"
  using assms by (simp add: mat4_mul_def row_mat4_def col4_def dot4_def)

lemma m4_local: "m4 (local_transf rots J j) = Vec4 0 0 0 1"
  by (simp add: local_transf_def th_with_zeros_def)

lemma m4_root: "m4 (root_transf rots J) = Vec4 0 0 0 1"
  by (simp add: root_transf_def th_with_zeros_def)

lemma m4_G_k:
  assumes "16 \<le> length rots" and "j < 16"
  shows "m4 (G_k rots J ! j) = Vec4 0 0 0 1"
  using below16 [OF assms(2)]
  by (auto simp add: G_k_unfold [OF assms(1)] Let_def m4_mul m4_local m4_root)

text \<open>
  Claim C5. Whenever \<open>skinning_layer\<close> returns with a centre index \<open>c\<close>, for every item
  \<open>i\<close> of the batch and each of the 16 joints \<open>j\<close>: the reported centre is joint \<open>c\<close> of
  the reordered joints; the returned transform has the rotation block of the composed
  transform \<open>G_k\<close>, its translation minus the centre, and the bottom row [0, 0, 0, 1],
  which is also the bottom row of the composed transform.
\<close>
theorem centering_transforms:
  assumes "skinning_layer m rs bs = Inr out" and "center_idx m = Some c"
    and "i < length rs" and "j < 16"
  shows "center_joint out ! i = py_nth (joints21 m (rs ! i) (bs ! i)) c \<and>
         length (transforms_abs out ! i) = 16 \<and>
         rot3 (transforms_abs out ! i ! j) = rot3 (G_k (rs ! i) (J_of m (bs ! i)) ! j) \<and>
         tsl3 (transforms_abs out ! i ! j) =
           vec3_sub (tsl3 (G_k (rs ! i) (J_of m (bs ! i)) ! j)) (center_joint out ! i) \<and>
         m4 (transforms_abs out ! i ! j) = Vec4 0 0 0 1 \<and>
         m4 (G_k (rs ! i) (J_of m (bs ! i)) ! j) = Vec4 0 0 0 1"
proof -
  from assms(1) have ok: "skinning_raises m rs bs = None" and out: "out = skinning_result m rs bs"
    by (simp_all add: skinning_layer_Inr)
  have len: "length rs = length bs" using ok by (rule skinning_raises_None)
  have "rs ! i \<in> set rs" using assms(3) by simp
  then have r16: "16 \<le> length (rs ! i)" using skinning_raises_None(3) [OF ok] by blast
  have cj: "center_joint out ! i = py_nth (joints21 m (rs ! i) (bs ! i)) c"
    using assms(3) len by (simp add: out skinning_result_def center_joint_of_def assms(2))
  have tr: "transforms_abs out ! i =
      map (shift_transf (center_joint out ! i)) (G_k (rs ! i) (J_of m (bs ! i)))"
    using assms(3) len by (simp add: out skinning_result_def)
  have l16: "length (transforms_abs out ! i) = 16" by (simp add: tr length_G_k)
  have trj: "transforms_abs out ! i ! j =
      shift_transf (center_joint out ! i) (G_k (rs ! i) (J_of m (bs ! i)) ! j)"
    using assms(4) by (simp add: tr length_G_k)
  show ?thesis
    using cj l16 by (simp add: trj rot3_shift tsl3_shift m4_shift m4_G_k [OF r16 assms(4)])
qed


text \<open>
  With centre index 3 on the batch of two items, at item 0 and joint 5: the rotation
  block is that of the composed transform, and the bottom row is [0, 0, 0, 1].
\<close>

theorem centering_transforms_witness:
  "skinning_layer (ex_layer (Some 3)) ex_rots ex_betas =
     Inr (skinning_result (ex_layer (Some 3)) ex_rots ex_betas) \<and>
   center_idx (ex_layer (Some 3)) = Some 3 \<and> (0::nat) < length ex_rots \<and> (5::nat) < 16 \<and>
   rot3 (transforms_abs (skinning_result (ex_layer (Some 3)) ex_rots ex_betas) ! 0 ! 5) =
     rot3 (G_k (ex_rots ! 0) (J_of (ex_layer (Some 3)) (ex_betas ! 0)) ! 5) \<and>
   tsl3 (transforms_abs (skinning_result (ex_layer (Some 3)) ex_rots ex_betas) ! 0 ! 5) =
     vec3_sub (tsl3 (G_k (ex_rots ! 0) (J_of (ex_layer (Some 3)) (ex_betas ! 0)) ! 5))
       (center_joint (skinning_result (ex_layer (Some 3)) ex_rots ex_betas) ! 0) \<and>
   m4 (transforms_abs (skinning_result (ex_layer (Some 3)) ex_rots ex_betas) ! 0 ! 5) = Vec4 0 0 0 1"
proof -
  have a: "skinning_layer (ex_layer (Some 3)) ex_rots ex_betas =
     Inr (skinning_result (ex_layer (Some 3)) ex_rots ex_betas)"
    by (simp add: skinning_layer_def ex_layer_raises py_index_ok_def)
  have c3: "center_idx (ex_layer (Some 3)) = Some 3"
    by (simp add: ex_layer_def)
  have i: "(0::nat) < length ex_rots" by (simp add: ex_rots_def)
  have j: "(5::nat) < 16" by simp
  from centering_transforms [OF a c3 i j] a c3 i show ?thesis by simp
qed

section \<open>The constructor\<close>

lemma ManoLayer_init_Inl:
  "ManoLayer_init rm sd c up fhm nc smpl = Inl e \<longleftrightarrow>
     (rm \<noteq> ''axisang'' \<and> rm \<noteq> ''quat'' \<and> e = NotImplementedError) \<or>
     ((rm = ''axisang'' \<or> rm = ''quat'') \<and> kintree_table smpl = [] \<and> e = IndexError)"
  by (auto simp: ManoLayer_init_def split: list.splits)

text \<open>
  Quaternion mode with PCA requested, on the example asset: the constructor returns a
  layer and the warning, it does not raise.
\<close>
theorem quat_pca_counterexample:
  "ManoLayer_init ''quat'' ''right'' None True True 15 ex_smpl =
     Inr ([quat_warning],
          (ex_layer None)\<lparr> rot_mode := ''quat'', use_pca := True,
             rotation_layer := Rotation_by_quaternion, rot_dim := 4, th_hands_mean := None \<rparr>)"
  by (simp add: ManoLayer_init_def init_warnings_def ex_smpl_def ex_layer_def)

text \<open>
  Claim C7, amended. Constructing in quaternion mode with PCA requested does not fail
  with NotImplementedError: on an asset whose kinematic table has a row the constructor
  returns a layer, one warning is emitted, the PCA flag is stored, and neither PCA
  components nor a mean pose are registered. The constructor raises NotImplementedError
  exactly when the rotation mode is neither \<^verbatim>\<open>axisang\<close> nor \<^verbatim>\<open>quat\<close>; in a supported
  mode it raises exactly when the kinematic table of the asset has no row, and then
  IndexError (line 80). Where it raises, no layer is returned.
\<close>
theorem quat_pca_warns:
  "(kintree_table smpl \<noteq> [] \<longrightarrow>
      (\<exists>m. ManoLayer_init ''quat'' sd c True fhm nc smpl = Inr ([quat_warning], m) \<and>
           use_pca m \<and> th_selected_comps m = None \<and> th_hands_mean m = None \<and>
           rotation_layer m = Rotation_by_quaternion)) \<and>
   ((ManoLayer_init rm sd c up fhm nc smpl = Inl e) =
      ((rm \<noteq> ''axisang'' \<and> rm \<noteq> ''quat'' \<and> e = NotImplementedError) \<or>
       ((rm = ''axisang'' \<or> rm = ''quat'') \<and> kintree_table smpl = [] \<and> e = IndexError)))"
proof -
  have "\<exists>m. ManoLayer_init ''quat'' sd c True fhm nc smpl = Inr ([quat_warning], m) \<and>
           use_pca m \<and> th_selected_comps m = None \<and> th_hands_mean m = None \<and>
           rotation_layer m = Rotation_by_quaternion"
    if "kintree_table smpl \<noteq> []"
    using that by (cases "kintree_table smpl") (simp_all add: ManoLayer_init_def init_warnings_def)
  then show ?thesis by (simp add: ManoLayer_init_Inl)
qed

text \<open>
  The example asset, whose kinematic table has a row: quaternion mode with PCA returns a
  layer with the warning; the mode \<^verbatim>\<open>pca\<close> raises NotImplementedError.
\<close>
theorem quat_pca_warns_witness:
  "kintree_table ex_smpl \<noteq> [] \<and>
   (\<exists>m. ManoLayer_init ''quat'' ''right'' None True True 15 ex_smpl = Inr ([quat_warning], m) \<and>
        use_pca m \<and> th_selected_comps m = None \<and> th_hands_mean m = None \<and>
        rotation_layer m = Rotation_by_quaternion) \<and>
   ManoLayer_init ''pca'' ''right'' None True True 15 ex_smpl = Inl NotImplementedError"
proof -
  have k: "kintree_table ex_smpl \<noteq> []" by (simp add: ex_smpl_def)
  from quat_pca_warns [of ex_smpl "''right''" None True 15 "''pca''" True NotImplementedError] k
  show ?thesis by simp
qed









section \<open>The rotation layers\<close>

lemma sequence_map_Inr:
  "(\<And>x. x \<in> set xs \<Longrightarrow> g x = Inr (h x)) \<Longrightarrow> sequence (map g xs) = Inr (map h xs)"
  by (induction xs) simp_all

lemma sequence_Inl: "sequence ys = Inl e \<Longrightarrow> Inl e \<in> set ys"
  by (induction ys rule: sequence.induct) (auto split: sum.splits)

lemma sequence_Inr_length: "sequence ys = Inr zs \<Longrightarrow> length zs = length ys"
  by (induction ys arbitrary: zs rule: sequence.induct) (auto split: sum.splits)

lemma length_chunks3: "length (chunks3 xs) = length xs div 3"
  by (induction xs rule: chunks3.induct) simp_all

lemma length_chunks4: "length (chunks4 xs) = length xs div 4"
  by (induction xs rule: chunks4.induct) simp_all


lemma bc_add_Inl: "bc_add xs ys = Inl e \<Longrightarrow> e = RuntimeError"
  by (simp add: bc_add_def split: if_splits)

lemma sequence_bc_add_Inl:
  assumes "sequence (map (bc_add mean) hs) = Inl e"
  shows "e = RuntimeError"
proof -
  from assms have "Inl e \<in> set (map (bc_add mean) hs)" by (rule sequence_Inl)
  then obtain h where "bc_add mean h = Inl e" by auto
  then show ?thesis by (rule bc_add_Inl)
qed

lemma mm_cases:
  "mm hs comps = Inl e \<Longrightarrow> e = RuntimeError"
  "mm hs comps = Inr fs \<Longrightarrow> length fs = length hs"
  by (auto simp: mm_def split: if_splits)

lemma rotation_by_axisang_Inl:
  assumes "th_hands_mean m \<noteq> None" and "use_pca m \<Longrightarrow> th_selected_comps m \<noteq> None"
    and "rotation_by_axisang X m pose = Inl e"
  shows "e = RuntimeError"
proof -
  define fhp where "fhp = (if use_pca m
          then (case th_selected_comps m of None \<Rightarrow> Inl AttributeError
                | Some comps \<Rightarrow> mm (map (drop (rot_dim m)) pose) comps)
          else Inr (map (drop (rot_dim m)) pose))"
  from assms(1) obtain mean where mean: "th_hands_mean m = Some mean" by auto
  show ?thesis
  proof (cases fhp)
    case (Inl e')
    then have "e' = RuntimeError"
      unfolding fhp_def using assms(2) by (auto simp: mm_cases split: if_splits option.splits)
    with Inl assms(3) show ?thesis
      by (simp add: rotation_by_axisang_def Let_def fhp_def [symmetric])
  next
    case (Inr fs)
    show ?thesis
    proof (cases "sequence (map (bc_add mean) fs)")
      case (Inl e')
      then have "e' = RuntimeError" by (rule sequence_bc_add_Inl)
      with Inl Inr assms(3) mean show ?thesis
        by (simp add: rotation_by_axisang_def Let_def fhp_def [symmetric])
    next
      case (Inr s)
      with \<open>fhp = Inr fs\<close> assms(3) mean show ?thesis
        by (simp add: rotation_by_axisang_def Let_def fhp_def [symmetric] split: if_splits)
    qed
  qed
qed

lemma rotation_by_axisang_Inr:
  assumes "rotation_by_axisang X m pose = Inr blob"
  shows "length (full_rots blob) = length pose \<and> (\<forall>rots \<in> set (full_rots blob). length rots = 16)"
proof -
  define fhp where "fhp = (if use_pca m
          then (case th_selected_comps m of None \<Rightarrow> Inl AttributeError
                | Some comps \<Rightarrow> mm (map (drop (rot_dim m)) pose) comps)
          else Inr (map (drop (rot_dim m)) pose))"
  from assms obtain fs where fs: "fhp = Inr fs"
    by (cases fhp) (simp_all add: rotation_by_axisang_def Let_def fhp_def [symmetric])
  then have lfs: "length fs = length pose"
    by (auto simp: fhp_def mm_cases split: if_splits option.splits)
  from assms fs obtain mean where mean: "th_hands_mean m = Some mean"
    by (cases "th_hands_mean m") (simp_all add: rotation_by_axisang_def Let_def fhp_def [symmetric])
  from assms fs mean obtain s where s: "sequence (map (bc_add mean) fs) = Inr s"
    by (cases "sequence (map (bc_add mean) fs)")
       (simp_all add: rotation_by_axisang_def Let_def fhp_def [symmetric])
  then have ls: "length s = length pose" using lfs by (auto dest: sequence_Inr_length)
  from assms fs mean s have ok: "list_all (\<lambda>p. length p = 48) (map2 (@) (map (take (rot_dim m)) pose) s)"
    and blob: "full_rots blob = map (\<lambda>p. map (so3_exp X) (chunks3 p)) (map2 (@) (map (take (rot_dim m)) pose) s)"
    by (auto simp: rotation_by_axisang_def Let_def fhp_def [symmetric] split: if_splits)
  have "length (full_rots blob) = length pose" using ls by (simp add: blob)
  moreover have "\<forall>rots \<in> set (full_rots blob). length rots = 16"
    using ok unfolding blob list_all_iff by (auto simp: length_chunks3)
  ultimately show ?thesis by blast
qed

lemma rotation_by_quaternion_cases:
  "rotation_by_quaternion X pose = Inl e \<Longrightarrow> e = RuntimeError"
  "rotation_by_quaternion X pose = Inr blob \<Longrightarrow>
     length (full_rots blob) = length pose \<and> (\<forall>rots \<in> set (full_rots blob). length rots = 16)"
  by (auto simp: rotation_by_quaternion_def list_all_iff length_chunks4 split: if_splits)

lemma init_registered:
  assumes "ManoLayer_init rm sd c up fhm nc smpl = Inr (ws, m)"
  shows "rotation_layer m = Rotation_by_axisang \<Longrightarrow> th_hands_mean m \<noteq> None"
    and "rotation_layer m = Rotation_by_axisang \<Longrightarrow> use_pca m \<Longrightarrow> th_selected_comps m \<noteq> None"
  using assms by (auto simp: ManoLayer_init_def split: if_splits list.splits)

lemma chunks4_identity:
  "chunks4 (concat (replicate 16 [a, b, c, d])) = replicate 16 (Vec4 a b c d)"
  by (simp add: numeral_eq_Suc)

lemma rotation_by_quaternion_identity:
  assumes "quaternion_to_rotation_matrix X (Vec4 a b c d) = eye3" and "0 < n"
  shows "\<exists>poses. rotation_by_quaternion X (replicate n (concat (replicate 16 [a, b, c, d]))) =
           Inr \<lparr> full_rots = replicate n (replicate 16 eye3), full_poses = poses \<rparr>"
  using assms
  by (simp add: rotation_by_quaternion_def list_all_iff chunks4_identity length_concat
      sum_list_replicate)

section \<open>Batch sizes\<close>

lemma skinning_raises_mismatch:
  assumes "\<forall>rots \<in> set rs. length rots = 16" and "length rs \<noteq> length bs"
    and "th_J_regressor m \<noteq> []"
  shows "skinning_raises m rs bs = Some RuntimeError"
proof -
  have "list_all (\<lambda>rots. rots \<noteq> []) rs" using assms(1) by (auto simp: list_all_iff)
  then show ?thesis using assms(2,3) by (simp add: skinning_raises_def)
qed

text \<open>
  Claim C8. For every layer that the constructor returns and whose buffers have the
  shapes of the asset, when the pose coefficients and the shape coefficients have
  different batch sizes, \<open>forward\<close> fails with RuntimeError (the error torch raises on
  mismatched shapes): no output is returned. The layer is only read by \<open>forward\<close>.
\<close>
theorem batch_mismatch:
  assumes "ManoLayer_init rm sd c up fhm nc smpl = Inr (ws, m)" and "wf_layer m"
    and "length pose \<noteq> length bs"
  shows "forward X m pose bs = Inl RuntimeError"
proof (cases "call_rotation_layer X m pose")
  case (Inl e)
  have "e = RuntimeError"
  proof (cases "rotation_layer m")
    case Rotation_by_axisang
    with Inl have "rotation_by_axisang X m pose = Inl e" by (simp add: call_rotation_layer_def)
    with init_registered [OF assms(1)] Rotation_by_axisang show ?thesis
      by (auto intro: rotation_by_axisang_Inl)
  next
    case Rotation_by_quaternion
    with Inl show ?thesis by (simp add: call_rotation_layer_def rotation_by_quaternion_cases)
  qed
  with Inl show ?thesis by (simp add: forward_def)
next
  case (Inr blob)
  then have "length (full_rots blob) = length pose \<and> (\<forall>rots \<in> set (full_rots blob). length rots = 16)"
    by (cases "rotation_layer m")
       (simp_all add: call_rotation_layer_def rotation_by_axisang_Inr rotation_by_quaternion_cases)
  moreover have "th_J_regressor m \<noteq> []" using assms(2) by (auto simp: wf_layer_def)
  ultimately have "skinning_raises m (full_rots blob) bs = Some RuntimeError"
    using assms(3) by (simp add: skinning_raises_mismatch)
  with Inr show ?thesis by (simp add: forward_def skinning_layer_def)
qed


section \<open>Zero pose coefficients\<close>








lemma ex_layer_wf: "wf_layer (ex_layer c)" and ex_layer_normalised: "weights_normalised (ex_layer c)"
  by (simp_all add: wf_layer_def weights_normalised_def ex_layer_def n_shape_def n_hand_def
      tip_idxs_def replicate_778 sum_list_replicate)


text \<open>
  The example asset: constructing in axis-angle mode succeeds, the buffers have the
  shapes of the asset, and one row of pose coefficients with two rows of shape
  coefficients fails with RuntimeError.
\<close>

theorem batch_mismatch_witness:
  "ManoLayer_init ''axisang'' ''right'' None False True 15 ex_smpl = Inr ([], ex_layer None) \<and>
   wf_layer (ex_layer None) \<and>
   length [replicate 48 (0::int)] \<noteq> length ex_betas \<and>
   forward ex_X (ex_layer None) [replicate 48 0] ex_betas = Inl RuntimeError"
proof -
  have a: "ManoLayer_init ''axisang'' ''right'' None False True 15 ex_smpl = Inr ([], ex_layer None)"
    by (simp add: ManoLayer_init_def init_warnings_def ex_smpl_def ex_layer_def)
  have b: "length [replicate 48 (0::int)] \<noteq> length ex_betas" by (simp add: ex_betas_def)
  from batch_mismatch [OF a ex_layer_wf b] a b ex_layer_wf [of None] show ?thesis by simp
qed

section \<open>Quaternion mode\<close>

lemma use_pca_B_S: "B_S (m\<lparr>use_pca := u\<rparr>) = B_S m"
  by (rule ext) (simp add: B_S_def)

lemma use_pca_v_shaped: "v_shaped (m\<lparr>use_pca := u\<rparr>) = v_shaped m"
  by (rule ext) (simp add: v_shaped_def use_pca_B_S)

lemma use_pca_J_of: "J_of (m\<lparr>use_pca := u\<rparr>) = J_of m"
  by (rule ext) (simp add: J_of_def use_pca_v_shaped)

lemma use_pca_B_P: "B_P (m\<lparr>use_pca := u\<rparr>) = B_P m"
  by (rule ext) (simp add: B_P_def)

lemma use_pca_T_P: "T_P (m\<lparr>use_pca := u\<rparr>) = T_P m"
  by (rule ext)+ (simp add: T_P_def use_pca_v_shaped use_pca_B_P)

lemma use_pca_verts_of: "verts_of (m\<lparr>use_pca := u\<rparr>) = verts_of m"
  by (rule ext)+ (simp add: verts_of_def use_pca_T_P use_pca_J_of)

lemma use_pca_joints21: "joints21 (m\<lparr>use_pca := u\<rparr>) = joints21 m"
  by (rule ext)+
    (simp add: joints21_def joints16_def tips_def tip_idxs_def use_pca_verts_of use_pca_J_of)

lemma use_pca_center_joint_of: "center_joint_of (m\<lparr>use_pca := u\<rparr>) = center_joint_of m"
  by (rule ext)+ (simp add: center_joint_of_def use_pca_joints21 cong: option.case_cong)

lemma use_pca_skinning_layer:
  "skinning_layer (m\<lparr>use_pca := u\<rparr>) rs bs = skinning_layer m rs bs"
proof -
  have "skinning_raises (m\<lparr>use_pca := u\<rparr>) rs bs = skinning_raises m rs bs"
    by (simp add: skinning_raises_def n_shape_def n_pose_def tip_idxs_def n_shaped_def n_verts_def)
  moreover have "skinning_result (m\<lparr>use_pca := u\<rparr>) rs bs = skinning_result m rs bs"
    by (simp add: skinning_result_def use_pca_center_joint_of use_pca_joints21 use_pca_verts_of
        use_pca_J_of)
  ultimately show ?thesis by (simp add: skinning_layer_def cong: option.case_cong)
qed

lemma use_pca_forward:
  assumes "rotation_layer m = Rotation_by_quaternion"
  shows "forward X (m\<lparr>use_pca := u\<rparr>) pose bs = forward X m pose bs"
proof -
  have "call_rotation_layer X (m\<lparr>use_pca := u\<rparr>) pose = call_rotation_layer X m pose"
    using assms by (simp add: call_rotation_layer_def)
  then show ?thesis by (simp add: forward_def use_pca_skinning_layer cong: sum.case_cong)
qed

text \<open>
  Claim C10. In quaternion mode, on an asset whose kinematic table has a row (line 80
  raises otherwise, in every mode), the constructor succeeds whatever the PCA flag, the
  mean-pose flag and the number of components; it emits the warning exactly when PCA is
  requested or the flat mean pose is switched off; and \<open>forward\<close> on the resulting layer
  returns, for all inputs, what it returns on the layer constructed without PCA and with
  the flat mean pose.
\<close>
theorem quat_ignores_pca:
  assumes "kintree_table smpl \<noteq> []"
  shows "\<exists>m1 m2. ManoLayer_init ''quat'' sd c up fhm nc smpl =
              Inr (if up \<or> \<not> fhm then [quat_warning] else [], m1) \<and>
           ManoLayer_init ''quat'' sd c False True nc' smpl = Inr ([], m2) \<and>
           (\<forall>pose bs. forward X m1 pose bs = forward X m2 pose bs)"
proof -
  from assms obtain row rest where k: "kintree_table smpl = row # rest"
    by (cases "kintree_table smpl") auto
  obtain m2 where m2: "ManoLayer_init ''quat'' sd c False True nc' smpl = Inr ([], m2)"
    and q: "rotation_layer m2 = Rotation_by_quaternion"
    by (simp add: ManoLayer_init_def init_warnings_def k)
  have m1: "ManoLayer_init ''quat'' sd c up fhm nc smpl =
      Inr (if up \<or> \<not> fhm then [quat_warning] else [], m2\<lparr>use_pca := up\<rparr>)"
    using m2 by (auto simp: ManoLayer_init_def init_warnings_def k)
  from m1 m2 use_pca_forward [OF q] show ?thesis by blast
qed

text \<open>
  The example asset: the layer of quaternion mode with PCA and without the flat mean
  pose, and the layer of quaternion mode without PCA, agree on the example batch.
\<close>
theorem quat_ignores_pca_witness:
  "kintree_table ex_smpl \<noteq> [] \<and>
   (\<exists>m1 m2. ManoLayer_init ''quat'' ''right'' None True False 15 ex_smpl = Inr ([quat_warning], m1) \<and>
           ManoLayer_init ''quat'' ''right'' None False True 15 ex_smpl = Inr ([], m2) \<and>
           forward ex_X m1 ex_pose ex_betas = forward ex_X m2 ex_pose ex_betas)"
proof -
  have k: "kintree_table ex_smpl \<noteq> []" by (simp add: ex_smpl_def)
  from quat_ignores_pca [OF k, of "''right''" None True False 15 15 ex_X]
  obtain m1 m2 where "ManoLayer_init ''quat'' ''right'' None True False 15 ex_smpl = Inr ([quat_warning], m1)"
    and "ManoLayer_init ''quat'' ''right'' None False True 15 ex_smpl = Inr ([], m2)"
    and "\<forall>pose bs. forward ex_X m1 pose bs = forward ex_X m2 pose bs"
    by auto
  with k show ?thesis by blast
qed

section \<open>Identity rotations\<close>













lemma length_joints16: "length (joints16 m rots b) = 16"
  by (simp add: joints16_def length_G_k)





section \<open>The rest pose\<close>















end
